theory Spec2Isabelle
  imports Main
begin

section \<open>Object model\<close>

text \<open>
  The module \<^verbatim>\<open>lib/galaxy/managers/hdas.py\<close> is glue between ORM objects
  (HistoryDatasetAssociation, History, User), the SQLAlchemy session and the manager and
  serializer base classes. ORM objects are shared by reference, so every object is an
  address into a store and Python's \<^verbatim>\<open>==\<close> on two model objects is equality of
  addresses; \<^verbatim>\<open>None\<close> is \<open>None\<close> of an option type.
\<close>

type_synonym ref = nat

text \<open>Values of a JSON-like dictionary and of keyword arguments.\<close>

datatype pyval =
    PyNone
  | PyBool bool
  | PyInt int
  | PyStr string
  | PyList "pyval list"
  | PyDict "(string \<times> pyval) list"

text \<open>The exceptions the module raises, by its own \<^verbatim>\<open>raise\<close> or by the interpreter.\<close>

datatype error =
    Conflict string
  | NameError string
  | AttributeError string
  | KeyError string
  | TypeError string
  | Raised string

record User =
  total_disk_usage :: int

record History =
  user :: "ref option"

text \<open>What the module reads of \<^verbatim>\<open>hda.datatype\<close>.\<close>

record Datatype =
  is_Text :: bool
  copy_safe_peek :: bool

record HistoryDatasetAssociation =
  name :: string
  info :: string
  blurb :: string
  peek :: string
  tool_version :: string
  extension :: string
  dbkey :: string
  dataset :: "ref option"
  visible :: bool
  deleted :: bool
  parent_id :: pyval
  history :: "ref option"
  hid :: "nat option"
  copied_from_history_dataset_association :: "ref option"
  metadata :: "(string \<times> pyval) list"
  state :: string
  private_state :: string
  hda_datatype :: Datatype
  file_name :: string

text \<open>
  A call made on a collaborator whose code lives elsewhere: \<^verbatim>\<open>history.add_dataset(hda)\<close>,
  \<^verbatim>\<open>session.add(hda)\<close> and \<^verbatim>\<open>session.flush()\<close>. A flush carries the rows it writes:
  every object registered with the session, with the field values it has at that moment.
\<close>

datatype call =
    History_add_dataset ref ref
  | Session_add ref
  | Session_flush "(ref \<times> HistoryDatasetAssociation) list"

record world =
  hdas :: "ref \<Rightarrow> HistoryDatasetAssociation"
  next_hda :: ref
  histories :: "ref \<Rightarrow> History"
  users :: "ref \<Rightarrow> User"
  session :: "ref list"
  calls :: "call list"
  files :: "string \<rightharpoonup> string"

text \<open>The web transaction: \<^verbatim>\<open>trans.user\<close> and the result of \<^verbatim>\<open>trans.get_history()\<close>.\<close>

record trans =
  trans_user :: "ref option"
  get_history :: "ref option"

text \<open>
  The names the module reads from \<^verbatim>\<open>galaxy.model\<close>, whose code is not part of the module:
  the state constants, the conversion messages, the constructor of
  \<^verbatim>\<open>HistoryDatasetAssociation\<close> (the object it builds before the keyword arguments are
  stored) and the methods of the model objects, each given by what it does to the object
  it is called on.
\<close>

record model =
  Dataset_states_UPLOAD :: string
  Dataset_states_RESUBMITTED :: string
  Job_states_ERROR :: string
  Job_states_OK :: string
  conversion_messages_NO_DATA :: string
  conversion_messages_ERROR :: string
  conversion_messages_PENDING :: string
  HistoryDatasetAssociation_init :: HistoryDatasetAssociation
  add_dataset :: "ref \<Rightarrow> HistoryDatasetAssociation \<Rightarrow> HistoryDatasetAssociation"
  set_size :: "HistoryDatasetAssociation \<Rightarrow> HistoryDatasetAssociation"
  set_peek :: "HistoryDatasetAssociation \<Rightarrow> HistoryDatasetAssociation"
  quota_amount :: "world \<Rightarrow> ref \<Rightarrow> ref \<Rightarrow> int"

text \<open>
  \<^verbatim>\<open>self\<close> of an \<^verbatim>\<open>HDAManager\<close>: the user manager it holds and the methods it inherits from
  \<^verbatim>\<open>datasets.DatasetAssociationManager\<close> and reaches through \<^verbatim>\<open>super\<close>.
\<close>

record HDAManager =
  user_manager_is_admin :: "trans \<Rightarrow> ref option \<Rightarrow> bool"
  user_manager_is_anonymous :: "ref option \<Rightarrow> bool"
  super_is_accessible :: "world \<Rightarrow> trans \<Rightarrow> ref \<Rightarrow> ref option \<Rightarrow> error + bool"
  super_create ::
    "trans \<Rightarrow> bool \<Rightarrow> ref option \<Rightarrow> ref option \<Rightarrow> (string \<rightharpoonup> pyval) \<Rightarrow> world
      \<Rightarrow> (error + ref) \<times> world"
  super_purge :: "trans \<Rightarrow> ref \<Rightarrow> bool \<Rightarrow> world \<Rightarrow> (error + unit) \<times> world"
  app_model :: model

section \<open>HDAManager: security and permissions\<close>

text \<open>
  \<^verbatim>\<open>is_owner\<close> (lines 58-68). \<^verbatim>\<open>history.user\<close> on a history that is \<^verbatim>\<open>None\<close> is an
  AttributeError.
\<close>

definition is_owner :: "HDAManager \<Rightarrow> world \<Rightarrow> trans \<Rightarrow> ref \<Rightarrow> ref option \<Rightarrow> error + bool" where
  "is_owner self w tr hda u =
     (let h = history (hdas w hda) in
      if user_manager_is_admin self tr u then Inr True
      else if user_manager_is_anonymous self u \<and> h = get_history tr then Inr True
      else (case h of
              None \<Rightarrow> Inl (AttributeError ''user'')
            | Some r \<Rightarrow> Inr (user (histories w r) = u)))"

text \<open>\<^verbatim>\<open>is_accessible\<close> (lines 50-56).\<close>

definition is_accessible :: "HDAManager \<Rightarrow> world \<Rightarrow> trans \<Rightarrow> ref \<Rightarrow> ref option \<Rightarrow> error + bool" where
  "is_accessible self w tr hda u =
     (case is_owner self w tr hda u of
        Inl e \<Rightarrow> Inl e
      | Inr b \<Rightarrow> if b then Inr True else super_is_accessible self w tr hda u)"

section \<open>HDAManager: states\<close>

text \<open>\<^verbatim>\<open>error_if_uploading\<close> (lines 156-163).\<close>

definition error_if_uploading :: "HDAManager \<Rightarrow> world \<Rightarrow> trans \<Rightarrow> ref \<Rightarrow> error + ref" where
  "error_if_uploading self w tr hda =
     (if state (hdas w hda) = Dataset_states_UPLOAD (app_model self)
      then Inl (Conflict ''Please wait until this dataset finishes uploading'')
      else Inr hda)"

text \<open>
  \<^verbatim>\<open>data_conversion_status\<close> (lines 165-177). The \<^verbatim>\<open>hda\<close> argument may be \<^verbatim>\<open>None\<close>;
  the result is a message or \<^verbatim>\<open>None\<close>.
\<close>

definition data_conversion_status ::
    "HDAManager \<Rightarrow> world \<Rightarrow> trans \<Rightarrow> ref option \<Rightarrow> string option" where
  "data_conversion_status self w tr hda =
     (case hda of
        None \<Rightarrow> Some (conversion_messages_NO_DATA (app_model self))
      | Some r \<Rightarrow>
          if state (hdas w r) = Job_states_ERROR (app_model self)
          then Some (conversion_messages_ERROR (app_model self))
          else if state (hdas w r) \<noteq> Job_states_OK (app_model self)
          then Some (conversion_messages_PENDING (app_model self))
          else None)"

section \<open>HDAManager: create and copy\<close>

text \<open>Assignments to one object of the store, and the two session calls.\<close>

definition update_hda ::
    "ref \<Rightarrow> (HistoryDatasetAssociation \<Rightarrow> HistoryDatasetAssociation) \<Rightarrow> world \<Rightarrow> world" where
  "update_hda r f w = w\<lparr>hdas := (hdas w)(r := f (hdas w r))\<rparr>"

definition session_add :: "ref \<Rightarrow> world \<Rightarrow> world" where
  "session_add r w =
     w\<lparr>session := (if r \<in> set (session w) then session w else session w @ [r]),
       calls := calls w @ [Session_add r]\<rparr>"

definition session_flush :: "world \<Rightarrow> world" where
  "session_flush w =
     w\<lparr>calls := calls w @ [Session_flush (map (\<lambda>r. (r, hdas w r)) (session w))]\<rparr>"

text \<open>\<^verbatim>\<open>history.add_dataset(hda)\<close>: the call is recorded and the dataset is updated.\<close>

definition history_add_dataset :: "model \<Rightarrow> ref \<Rightarrow> ref \<Rightarrow> world \<Rightarrow> world" where
  "history_add_dataset m h r w =
     (update_hda r (add_dataset m h) w)\<lparr>calls := calls w @ [History_add_dataset h r]\<rparr>"

text \<open>
  \<^verbatim>\<open>create\<close> (lines 71-96). The call of lines 80-84 passes \<^verbatim>\<open>sa_session=\<close> next to
  \<^verbatim>\<open>**kwargs\<close>: when the keyword arguments hold \<^verbatim>\<open>sa_session\<close> too, Python raises
  TypeError for the repeated keyword before the inherited \<^verbatim>\<open>create\<close> runs. (\<^verbatim>\<open>history\<close>,
  \<^verbatim>\<open>dataset\<close> and \<^verbatim>\<open>flush\<close> are parameters of \<^verbatim>\<open>create\<close> itself and never reach
  \<^verbatim>\<open>kwargs\<close>.) \<^verbatim>\<open>set_hid\<close> is computed and never used, as the source's comment says.
\<close>

definition create ::
    "HDAManager \<Rightarrow> trans \<Rightarrow> ref option \<Rightarrow> ref option \<Rightarrow> bool \<Rightarrow> (string \<rightharpoonup> pyval) \<Rightarrow> world
      \<Rightarrow> (error + ref) \<times> world" where
  "create self tr history_arg dataset_arg flush kwargs w =
     (let kwargs1 = (if dataset_arg = None then kwargs(''create_dataset'' \<mapsto> PyBool True)
                     else kwargs)
      in if kwargs1 ''sa_session'' \<noteq> None then (Inl (TypeError ''sa_session''), w)
         else
           (case super_create self tr flush history_arg dataset_arg kwargs1 w of
              (Inl e, w1) \<Rightarrow> (Inl e, w1)
            | (Inr hda, w1) \<Rightarrow>
                (let w2 = (case history_arg of
                             None \<Rightarrow> w1
                           | Some h \<Rightarrow>
                               (let set_hid = (kwargs1 ''hid'' = None)
                                in history_add_dataset (app_model self) h hda w1));
                     w3 = session_add hda w2;
                     w4 = (if flush then session_flush w3 else w3)
                 in (Inr hda, w4))))"

text \<open>\<^verbatim>\<open>copy\<close> (lines 98-136). The new object takes the next free address.\<close>

definition copy ::
    "HDAManager \<Rightarrow> trans \<Rightarrow> ref \<Rightarrow> ref option \<Rightarrow> (string \<rightharpoonup> pyval) \<Rightarrow> world \<Rightarrow> ref \<times> world" where
  "copy self tr hda history_arg kwargs w =
     (let m = app_model self;
          src = hdas w hda;
          new = (HistoryDatasetAssociation_init m)
                  \<lparr>name := name src,
                   info := info src,
                   blurb := blurb src,
                   peek := peek src,
                   tool_version := tool_version src,
                   extension := extension src,
                   dbkey := dbkey src,
                   dataset := dataset src,
                   visible := visible src,
                   deleted := deleted src,
                   parent_id := (case kwargs ''parent_id'' of None \<Rightarrow> PyNone | Some v \<Rightarrow> v)\<rparr>;
          c = next_hda w;
          w1 = w\<lparr>hdas := (hdas w)(c := new), next_hda := Suc c\<rparr>;
          w2 = (case history_arg of
                  None \<Rightarrow> w1
                | Some h \<Rightarrow> history_add_dataset m h c w1);
          w3 = update_hda c (\<lambda>x. x\<lparr>copied_from_history_dataset_association := Some hda\<rparr>) w2;
          w4 = update_hda c (set_size m) w3;
          w5 = session_add c w4;
          w6 = session_flush w5;
          w7 = update_hda c (\<lambda>x. x\<lparr>metadata := metadata (hdas w6 hda)\<rparr>) w6;
          w8 = (if \<not> copy_safe_peek (hda_datatype (hdas w7 hda))
                then update_hda c (set_peek m) w7 else w7);
          w9 = session_flush w8
      in (c, w9))"

section \<open>HDAManager: deletion and purging\<close>

text \<open>
  \<^verbatim>\<open>purge\<close> (lines 145-153). \<^verbatim>\<open>hda.quota_amount\<close> is called after the inherited purge,
  on the state that purge leaves.
\<close>

definition purge ::
    "HDAManager \<Rightarrow> trans \<Rightarrow> ref \<Rightarrow> bool \<Rightarrow> world \<Rightarrow> (error + ref) \<times> world" where
  "purge self tr hda flush w =
     (case super_purge self tr hda flush w of
        (Inl e, w1) \<Rightarrow> (Inl e, w1)
      | (Inr _, w1) \<Rightarrow>
          (case trans_user tr of
             None \<Rightarrow> (Inr hda, w1)
           | Some u \<Rightarrow>
               (Inr hda,
                w1\<lparr>users := (users w1)
                     (u := (users w1 u)
                        \<lparr>total_disk_usage :=
                           total_disk_usage (users w1 u)
                             - quota_amount (app_model self) w1 hda u\<rparr>)\<rparr>)))"

section \<open>HDAManager: data\<close>

text \<open>
  \<^verbatim>\<open>text_data\<close> (lines 183-200). The function binds the local name \<^verbatim>\<open>MAX_PEEK_SIZE\<close>
  and reads the name \<^verbatim>\<open>max_peek_size\<close>, which neither the function nor the module
  binds; Python looks a name up when the expression is evaluated and raises NameError
  for one that is not bound.
\<close>

definition text_data_names :: "string \<rightharpoonup> nat" where
  "text_data_names = map_of [(''MAX_PEEK_SIZE'', 1000000)]"

definition text_data :: "world \<Rightarrow> ref \<Rightarrow> bool \<Rightarrow> error + (bool \<times> string option)" where
  "text_data w hda preview =
     (let truncated = False;
          hda_data = None
      in if \<not> is_Text (hda_datatype (hdas w hda)) then Inr (truncated, hda_data)
         else (case files w (file_name (hdas w hda)) of
                 None \<Rightarrow> Inr (truncated, hda_data)
               | Some contents \<Rightarrow>
                   (let truncated =
                          (preview \<and> (case text_data_names ''MAX_PEEK_SIZE'' of
                                         None \<Rightarrow> False
                                       | Some n \<Rightarrow> length contents > n))
                    in case text_data_names ''max_peek_size'' of
                         None \<Rightarrow> Inl (NameError ''max_peek_size'')
                       | Some n \<Rightarrow> Inr (truncated, Some (take n contents)))))"

section \<open>HDASerializer\<close>

text \<open>
  A serializer is called as \<^verbatim>\<open>f(trans, item, key)\<close>. \<^verbatim>\<open>self\<close> of an \<^verbatim>\<open>HDASerializer\<close>
  holds the bound methods the table stores (those of lines 311-390 and the inherited
  \<^verbatim>\<open>serialize_id\<close> and \<^verbatim>\<open>_remap_from\<close>), \<^verbatim>\<open>url_for\<close>, the id encoder of
  \<^verbatim>\<open>trans.security\<close>, and what the three inherited \<^verbatim>\<open>add_serializers\<close> calls do to
  \<^verbatim>\<open>self.serializers\<close>.
\<close>

type_synonym serializer = "trans \<Rightarrow> world \<Rightarrow> ref \<Rightarrow> string \<Rightarrow> error + pyval"

record HDASerializer =
  hda_manager :: HDAManager
  super_add_serializers :: "(string \<rightharpoonup> serializer) \<Rightarrow> (string \<rightharpoonup> serializer)"
  Taggable_add_serializers :: "(string \<rightharpoonup> serializer) \<Rightarrow> (string \<rightharpoonup> serializer)"
  Annotatable_add_serializers :: "(string \<rightharpoonup> serializer) \<Rightarrow> (string \<rightharpoonup> serializer)"
  serialize_id :: serializer
  remap_from :: "string \<Rightarrow> serializer"
  serialize_type_id :: serializer
  serialize_display_apps :: serializer
  serialize_old_display_applications :: serializer
  serialize_visualization_links :: serializer
  serialize_urls :: serializer
  url_for :: "string \<Rightarrow> (string \<times> pyval) list \<Rightarrow> pyval"
  security_encode_id :: "ref option \<Rightarrow> pyval"

text \<open>
  \<^verbatim>\<open>add_serializers\<close> (lines 268-309): the three inherited calls, then
  \<^verbatim>\<open>self.serializers.update\<close> with the dictionary of lines 273-309, whose entries
  replace inherited ones of the same key. The id of an object is its address.
\<close>

definition add_serializers ::
    "HDASerializer \<Rightarrow> (string \<rightharpoonup> serializer) \<Rightarrow> (string \<rightharpoonup> serializer)" where
  "add_serializers self serializers0 =
     Annotatable_add_serializers self
       (Taggable_add_serializers self (super_add_serializers self serializers0))
     ++ map_of
       [(''model_class'', \<lambda>t w i k. Inr (PyStr ''HistoryDatasetAssociation'')),
        (''history_content_type'', \<lambda>t w i k. Inr (PyStr ''dataset'')),
        (''hda_ldda'', \<lambda>t w i k. Inr (PyStr ''hda'')),
        (''type_id'', serialize_type_id self),
        (''history_id'', serialize_id self),
        (''misc_info'', remap_from self ''info''),
        (''misc_blurb'', remap_from self ''blurb''),
        (''file_ext'', remap_from self ''extension''),
        (''file_path'', remap_from self ''file_name''),
        (''resubmitted'', \<lambda>t w i k.
           Inr (PyBool (private_state (hdas w i)
                  = Dataset_states_RESUBMITTED (app_model (hda_manager self))))),
        (''display_apps'', serialize_display_apps self),
        (''display_types'', serialize_old_display_applications self),
        (''visualizations'', serialize_visualization_links self),
        (''url'', \<lambda>t w i k.
           Inr (url_for self ''history_content''
                  [(''history_id'', security_encode_id self (history (hdas w i))),
                   (''id'', security_encode_id self (Some i))])),
        (''urls'', serialize_urls self),
        (''download_url'', \<lambda>t w i k.
           (case history (hdas w i) of
              None \<Rightarrow> Inl (AttributeError ''id'')
            | Some h \<Rightarrow>
                Inr (url_for self ''history_contents_display''
                       [(''history_id'', security_encode_id self (Some h)),
                        (''history_content_id'', security_encode_id self (Some i))]))),
        (''parent_id'', serialize_id self),
        (''accessible'', \<lambda>t w i k. Inr (PyBool True)),
        (''api_type'', \<lambda>t w i k. Inr (PyStr ''file'')),
        (''type'', \<lambda>t w i k. Inr (PyStr ''file''))]"

section \<open>HDADeserializer\<close>





section \<open>What a collaborator leaves alone\<close>

text \<open>
  \<^verbatim>\<open>history.add_dataset\<close>, \<^verbatim>\<open>set_size\<close> and \<^verbatim>\<open>set_peek\<close> are not part of the module.
  The first predicate says that a method leaves the fields alone that \<^verbatim>\<open>copy\<close> takes
  from the source (the peek and the blurb apart), the second that it leaves the peek and
  the blurb alone.
\<close>

definition keeps_copied_fields ::
    "(HistoryDatasetAssociation \<Rightarrow> HistoryDatasetAssociation) \<Rightarrow> bool" where
  "keeps_copied_fields f =
     (\<forall>x. name (f x) = name x \<and> info (f x) = info x
        \<and> tool_version (f x) = tool_version x \<and> extension (f x) = extension x
        \<and> dbkey (f x) = dbkey x \<and> dataset (f x) = dataset x
        \<and> visible (f x) = visible x \<and> deleted (f x) = deleted x
        \<and> copied_from_history_dataset_association (f x)
            = copied_from_history_dataset_association x
        \<and> metadata (f x) = metadata x)"

definition keeps_peek ::
    "(HistoryDatasetAssociation \<Rightarrow> HistoryDatasetAssociation) \<Rightarrow> bool" where
  "keeps_peek f = (\<forall>x. peek (f x) = peek x \<and> blurb (f x) = blurb x)"

section \<open>Calling a table entry\<close>



section \<open>A small installation\<close>

text \<open>
  Concrete collaborators and a concrete store, on which the theorems below are
  instantiated. User 0 is the administrator, user 1 owns history 0, every other history
  belongs to an anonymous session; the anonymous user is \<^verbatim>\<open>None\<close>.
\<close>

definition example_hda :: HistoryDatasetAssociation where
  "example_hda =
     \<lparr>name = ''reads'', info = ''uploaded file'', blurb = ''4 lines'', peek = ''ACGT'',
      tool_version = ''1.0'', extension = ''txt'', dbkey = ''hg19'', dataset = Some 7,
      visible = True, deleted = False, parent_id = PyNone, history = Some 0, hid = Some 1,
      copied_from_history_dataset_association = None,
      metadata = [(''data_lines'', PyInt 4)], state = ''ok'', private_state = ''ok'',
      hda_datatype = \<lparr>is_Text = True, copy_safe_peek = False\<rparr>,
      file_name = ''dataset_7.dat''\<rparr>"

definition example_blank :: HistoryDatasetAssociation where
  "example_blank =
     \<lparr>name = ''Unnamed dataset'', info = [], blurb = [], peek = [],
      tool_version = [], extension = [], dbkey = ''?'', dataset = None,
      visible = True, deleted = False, parent_id = PyNone, history = None, hid = None,
      copied_from_history_dataset_association = None,
      metadata = [], state = ''new'', private_state = ''new'',
      hda_datatype = \<lparr>is_Text = False, copy_safe_peek = True\<rparr>,
      file_name = []\<rparr>"

definition example_model :: model where
  "example_model =
     \<lparr>Dataset_states_UPLOAD = ''upload'',
      Dataset_states_RESUBMITTED = ''resubmitted'',
      Job_states_ERROR = ''error'',
      Job_states_OK = ''ok'',
      conversion_messages_NO_DATA = ''no data'',
      conversion_messages_ERROR = ''error'',
      conversion_messages_PENDING = ''pending'',
      HistoryDatasetAssociation_init = example_blank,
      add_dataset = (\<lambda>h x. x\<lparr>history := Some h, hid := Some 2\<rparr>),
      set_size = (\<lambda>x. x),
      set_peek = (\<lambda>x. x\<lparr>peek := ''regenerated'', blurb := ''regenerated''\<rparr>),
      quota_amount = (\<lambda>w hda u. 40)\<rparr>"

definition example_world :: world where
  "example_world =
     \<lparr>hdas = (\<lambda>r. if r = 0 then example_hda
                  else if r = 1
                  then example_hda\<lparr>history := Some 1, state := ''upload'',
                         hda_datatype := \<lparr>is_Text = False, copy_safe_peek = True\<rparr>\<rparr>
                  else example_hda\<lparr>info := ''failed job'', history := Some 2,
                         state := ''error''\<rparr>),
      next_hda = 3,
      histories = (\<lambda>r. \<lparr>user = (if r = 0 then Some 1 else None)\<rparr>),
      users = (\<lambda>r. \<lparr>total_disk_usage = 100\<rparr>),
      session = [],
      calls = [],
      files = [''dataset_7.dat'' \<mapsto> ''ACGT'']\<rparr>"

definition example_manager :: HDAManager where
  "example_manager =
     \<lparr>user_manager_is_admin = (\<lambda>t u. u = Some 0),
      user_manager_is_anonymous = (\<lambda>u. u = None),
      super_is_accessible = (\<lambda>w t hda u. Inr (dataset (hdas w hda) = Some 7 \<and> u = Some 2)),
      super_create = (\<lambda>t flush h d kwargs w.
        (Inr (next_hda w),
         w\<lparr>hdas := (hdas w)(next_hda w := example_blank\<lparr>dataset := d\<rparr>),
           next_hda := Suc (next_hda w)\<rparr>)),
      super_purge = (\<lambda>t hda flush w. (Inr (), update_hda hda (\<lambda>x. x\<lparr>deleted := True\<rparr>) w)),
      app_model = example_model\<rparr>"

text \<open>A logged-in user (user 1, looking at history 0) and an anonymous visitor.\<close>

definition example_trans :: trans where
  "example_trans = \<lparr>trans_user = Some 1, get_history = Some 0\<rparr>"

definition anonymous_trans :: trans where
  "anonymous_trans = \<lparr>trans_user = None, get_history = Some 1\<rparr>"






section \<open>Ownership and accessibility\<close>

lemmas example_defs =
  example_manager_def example_world_def example_trans_def anonymous_trans_def
  example_hda_def example_model_def example_blank_def

text \<open>
  What \<open>is_owner\<close> returns for an administrator and for a user who is neither
  administrator nor anonymous: True for the administrator, whatever the history, and
  for the other, on an HDA that has a history, whether \<^verbatim>\<open>hda.history.user == user\<close>.
\<close>

lemma is_owner_known_user:
  "(user_manager_is_admin self tr u \<longrightarrow> is_owner self w tr hda u = Inr True)
   \<and> (\<not> user_manager_is_admin self tr u \<longrightarrow> \<not> user_manager_is_anonymous self u \<longrightarrow>
        history (hdas w hda) = Some h \<longrightarrow>
        is_owner self w tr hda u = Inr (user (histories w h) = u))"
  by (simp add: is_owner_def Let_def)

text \<open>
  Claim C1 says that an anonymous user owns an HDA if and only if its history is the
  current history of the transaction. Line 66 returns True for the current history, and
  for any other history the function goes on to line 68 where it should return False.
  The anonymous visitor of the small installation, whose current history is history 1,
  asks about HDA 2, which lies in history 2, the history of another anonymous session:
  \<^verbatim>\<open>history.user\<close> and \<^verbatim>\<open>user\<close> are both \<^verbatim>\<open>None\<close>, line 68 compares them, and
  \<open>is_owner\<close> returns True for a history that is not the current one.
\<close>

theorem is_owner_anonymous_foreign_history:
  "user_manager_is_anonymous example_manager None
   \<and> \<not> user_manager_is_admin example_manager anonymous_trans None
   \<and> history (hdas example_world 2) = Some 2
   \<and> get_history anonymous_trans = Some 1
   \<and> user (histories example_world 2) = None
   \<and> is_owner example_manager example_world anonymous_trans 2 None = Inr True"
  by (simp add: is_owner_def example_defs)

text \<open>
  Claim C4. When \<open>is_owner\<close> returns True, \<open>is_accessible\<close> returns True, whatever the
  inherited check would say; when \<open>is_owner\<close> returns False, \<open>is_accessible\<close> returns
  the result of the inherited \<^verbatim>\<open>is_accessible\<close>.
\<close>

theorem owner_is_accessible:
  "(is_owner self w tr hda u = Inr True \<longrightarrow> is_accessible self w tr hda u = Inr True)
   \<and> (is_owner self w tr hda u = Inr False \<longrightarrow>
        is_accessible self w tr hda u = super_is_accessible self w tr hda u)"
  by (simp add: is_accessible_def)

text \<open>
  On HDA 0: its owner (the inherited check would refuse user 1), user 2 whom only the
  inherited check admits, and user 3 whom neither admits.
\<close>

theorem owner_is_accessible_witness:
  "is_owner example_manager example_world example_trans 0 (Some 1) = Inr True
   \<and> super_is_accessible example_manager example_world example_trans 0 (Some 1) = Inr False
   \<and> is_accessible example_manager example_world example_trans 0 (Some 1) = Inr True
   \<and> is_owner example_manager example_world example_trans 0 (Some 2) = Inr False
   \<and> is_accessible example_manager example_world example_trans 0 (Some 2) = Inr True
   \<and> is_owner example_manager example_world example_trans 0 (Some 3) = Inr False
   \<and> is_accessible example_manager example_world example_trans 0 (Some 3) = Inr False"
proof -
  have o1: "is_owner example_manager example_world example_trans 0 (Some 1) = Inr True"
    by (simp add: is_owner_def example_defs)
  have o2: "is_owner example_manager example_world example_trans 0 (Some 2) = Inr False"
    by (simp add: is_owner_def example_defs)
  have o3: "is_owner example_manager example_world example_trans 0 (Some 3) = Inr False"
    by (simp add: is_owner_def example_defs)
  have s1: "super_is_accessible example_manager example_world example_trans 0 (Some 1)
              = Inr False"
    by (simp add: example_defs)
  have s2: "super_is_accessible example_manager example_world example_trans 0 (Some 2)
              = Inr True"
    by (simp add: example_defs)
  have s3: "super_is_accessible example_manager example_world example_trans 0 (Some 3)
              = Inr False"
    by (simp add: example_defs)
  show ?thesis
    using o1 o2 o3 s1 s2 s3
      owner_is_accessible [of example_manager example_world example_trans 0 "Some 1"]
      owner_is_accessible [of example_manager example_world example_trans 0 "Some 2"]
      owner_is_accessible [of example_manager example_world example_trans 0 "Some 3"]
    by simp
qed

section \<open>States\<close>

text \<open>
  Claim C9. \<open>error_if_uploading\<close> raises if and only if the state of the HDA is the
  UPLOAD state, the exception is then the Conflict of line 162, and it returns the HDA
  it was given if and only if the state is another one. The function makes no
  assignment, so its model has no store to return: the store after the call is the store
  before it.
\<close>

theorem error_if_uploading_iff:
  "((error_if_uploading self w tr hda
       = Inl (Conflict ''Please wait until this dataset finishes uploading''))
      = (state (hdas w hda) = Dataset_states_UPLOAD (app_model self)))
   \<and> ((\<exists>e. error_if_uploading self w tr hda = Inl e)
      = (state (hdas w hda) = Dataset_states_UPLOAD (app_model self)))
   \<and> ((error_if_uploading self w tr hda = Inr hda)
      = (state (hdas w hda) \<noteq> Dataset_states_UPLOAD (app_model self)))"
  by (simp add: error_if_uploading_def)

text \<open>HDA 1 is uploading, HDA 0 is not.\<close>

theorem error_if_uploading_iff_witness:
  "error_if_uploading example_manager example_world example_trans 1
     = Inl (Conflict ''Please wait until this dataset finishes uploading'')
   \<and> error_if_uploading example_manager example_world example_trans 0 = Inr 0"
  using error_if_uploading_iff [of example_manager example_world example_trans 1]
        error_if_uploading_iff [of example_manager example_world example_trans 0]
  by (simp add: example_defs)

text \<open>
  Claim C10. \<open>data_conversion_status\<close> returns the NO_DATA message when the argument is
  \<^verbatim>\<open>None\<close>; for an HDA it returns the ERROR message when the state is ERROR, the PENDING
  message when the state is neither ERROR nor OK, and \<^verbatim>\<open>None\<close> when the state is OK (the
  two state constants being different). The four cases cover every input and the result
  is a function of the input; the function makes no assignment.
\<close>

theorem data_conversion_status_cases:
  "data_conversion_status self w tr None = Some (conversion_messages_NO_DATA (app_model self))
   \<and> (state (hdas w r) = Job_states_ERROR (app_model self) \<longrightarrow>
        data_conversion_status self w tr (Some r)
          = Some (conversion_messages_ERROR (app_model self)))
   \<and> (state (hdas w r) \<noteq> Job_states_ERROR (app_model self) \<longrightarrow>
      state (hdas w r) \<noteq> Job_states_OK (app_model self) \<longrightarrow>
        data_conversion_status self w tr (Some r)
          = Some (conversion_messages_PENDING (app_model self)))
   \<and> (Job_states_ERROR (app_model self) \<noteq> Job_states_OK (app_model self) \<longrightarrow>
      state (hdas w r) = Job_states_OK (app_model self) \<longrightarrow>
        data_conversion_status self w tr (Some r) = None)"
  by (simp add: data_conversion_status_def)

text \<open>No HDA, then HDA 2 (in error), HDA 1 (uploading) and HDA 0 (ok).\<close>

theorem data_conversion_status_cases_witness:
  "data_conversion_status example_manager example_world example_trans None = Some ''no data''
   \<and> data_conversion_status example_manager example_world example_trans (Some 2)
       = Some ''error''
   \<and> data_conversion_status example_manager example_world example_trans (Some 1)
       = Some ''pending''
   \<and> data_conversion_status example_manager example_world example_trans (Some 0) = None"
  using data_conversion_status_cases [of example_manager example_world example_trans 2]
        data_conversion_status_cases [of example_manager example_world example_trans 1]
        data_conversion_status_cases [of example_manager example_world example_trans 0]
  by (simp add: example_defs)

section \<open>Text data\<close>

text \<open>
  Whatever \<^verbatim>\<open>preview\<close> is, \<open>text_data\<close> returns \<^verbatim>\<open>(False, None)\<close> for an HDA whose
  datatype is not a Text datatype or whose file does not exist, and raises NameError for
  every Text HDA whose file exists.
\<close>

lemma text_data_cases:
  "text_data w hda preview =
     (if is_Text (hda_datatype (hdas w hda)) \<and> files w (file_name (hdas w hda)) \<noteq> None
      then Inl (NameError ''max_peek_size'') else Inr (False, None))"
  by (auto simp add: text_data_def text_data_names_def Let_def split: option.splits)

text \<open>
  Claim C6 asks for the first 1,000,000 bytes of the file. HDA 0 of the small
  installation has a Text datatype and its file exists and holds four bytes; line 199
  reads the unbound name \<^verbatim>\<open>max_peek_size\<close> and the call raises NameError, with and
  without \<^verbatim>\<open>preview\<close>.
\<close>

theorem text_data_raises_NameError:
  "is_Text (hda_datatype (hdas example_world 0))
   \<and> files example_world (file_name (hdas example_world 0)) = Some ''ACGT''
   \<and> text_data example_world 0 True = Inl (NameError ''max_peek_size'')
   \<and> text_data example_world 0 False = Inl (NameError ''max_peek_size'')"
  by (simp add: text_data_def text_data_names_def example_defs)

section \<open>Purging\<close>

text \<open>
  Claim C2. When \<open>purge\<close> completes, the inherited purge has completed, \<open>purge\<close>
  returns the HDA it was given, and with \<^verbatim>\<open>trans.user\<close> set the total disk usage of that
  user is the usage the inherited purge left, less \<^verbatim>\<open>hda.quota_amount(trans.user)\<close> as
  computed on the state the inherited purge left, while no other user is touched; with
  no \<^verbatim>\<open>trans.user\<close> the state is the one the inherited purge left. So when the inherited
  purge leaves every total disk usage as it found it, the user's usage has decreased by
  exactly that amount since before the call, and without a user no total disk usage has
  changed.
\<close>

theorem purge_quota:
  assumes "purge self tr hda flush w = (Inr r, w')"
  shows "\<exists>w1. super_purge self tr hda flush w = (Inr (), w1)
           \<and> r = hda
           \<and> (case trans_user tr of
                None \<Rightarrow> w' = w1
              | Some u \<Rightarrow>
                  total_disk_usage (users w' u)
                    = total_disk_usage (users w1 u) - quota_amount (app_model self) w1 hda u
                  \<and> (\<forall>v. v \<noteq> u \<longrightarrow> users w' v = users w1 v))
           \<and> ((\<forall>v. total_disk_usage (users w1 v) = total_disk_usage (users w v)) \<longrightarrow>
                (case trans_user tr of
                   None \<Rightarrow> (\<forall>v. total_disk_usage (users w' v) = total_disk_usage (users w v))
                 | Some u \<Rightarrow>
                     total_disk_usage (users w' u)
                       = total_disk_usage (users w u) - quota_amount (app_model self) w1 hda u
                     \<and> (\<forall>v. v \<noteq> u \<longrightarrow>
                           total_disk_usage (users w' v) = total_disk_usage (users w v))))"
  using assms
  by (auto simp add: purge_def split: prod.splits sum.splits option.splits)

text \<open>
  In the small installation the inherited purge marks the HDA as deleted and
  \<^verbatim>\<open>quota_amount\<close> is 40: purging HDA 0 as user 1 takes that user from 100 to 60 and
  leaves user 0 at 100; purging it as the anonymous visitor leaves user 1 at 100.
\<close>

theorem purge_quota_witness:
  "fst (purge example_manager example_trans 0 True example_world) = Inr 0
   \<and> total_disk_usage (users (snd (purge example_manager example_trans 0 True example_world)) 1)
       = 60
   \<and> total_disk_usage (users (snd (purge example_manager example_trans 0 True example_world)) 0)
       = 100
   \<and> fst (purge example_manager anonymous_trans 0 True example_world) = Inr 0
   \<and> total_disk_usage (users (snd (purge example_manager anonymous_trans 0 True example_world)) 1)
       = 100"
proof -
  let ?p = "purge example_manager example_trans 0 True example_world"
  let ?q = "purge example_manager anonymous_trans 0 True example_world"
  have sp: "\<And>t. super_purge example_manager t 0 True example_world
      = (Inr (), update_hda 0 (\<lambda>x. x\<lparr>deleted := True\<rparr>) example_world)"
    by (simp add: example_manager_def)
  have us: "users (update_hda 0 (\<lambda>x. x\<lparr>deleted := True\<rparr>) example_world) = users example_world"
    by (simp add: update_hda_def)
  have p: "?p = (Inr 0, snd ?p)"
    by (simp add: purge_def sp example_trans_def)
  have q: "?q = (Inr 0, snd ?q)"
    by (simp add: purge_def sp anonymous_trans_def)
  from purge_quota [OF p] sp us
  have a: "total_disk_usage (users (snd ?p) 1) = 60 \<and> total_disk_usage (users (snd ?p) 0) = 100"
    by (simp add: example_trans_def example_world_def example_manager_def example_model_def)
  from purge_quota [OF q] sp us
  have b: "total_disk_usage (users (snd ?q) 1) = 100"
    by (simp add: anonymous_trans_def example_world_def)
  from p q a b show ?thesis
    by (metis fst_conv)
qed

section \<open>Creating\<close>

text \<open>
  Claim C8, as the code has it. When the keyword arguments hold \<^verbatim>\<open>sa_session\<close>,
  \<open>create\<close> raises TypeError and nothing is created, added or flushed. Otherwise
  \<open>create\<close> calls the inherited \<^verbatim>\<open>create\<close> with \<^verbatim>\<open>create_dataset = True\<close> added to the
  keyword arguments when no dataset is given, and with the keyword arguments as they
  are when one is given. If that call raises, so does \<open>create\<close>. If it returns an HDA,
  \<open>create\<close> returns this HDA, and after the calls the inherited \<^verbatim>\<open>create\<close> made it
  makes exactly these: \<^verbatim>\<open>history.add_dataset(hda)\<close> on the history given, if one is
  given; \<^verbatim>\<open>session.add(hda)\<close>; and \<^verbatim>\<open>session.flush()\<close> if and only if \<^verbatim>\<open>flush\<close> is
  true. The HDA is registered with the session, and only \<^verbatim>\<open>add_dataset\<close> changes it.
\<close>

theorem create_wires_hda:
  "(kwargs ''sa_session'' \<noteq> None
     \<longrightarrow> create self tr h d flush kwargs w = (Inl (TypeError ''sa_session''), w))
   \<and> (kwargs ''sa_session'' = None \<longrightarrow>
      super_create self tr flush h d
        (if d = None then kwargs(''create_dataset'' \<mapsto> PyBool True) else kwargs) w
        = (Inl e, w1)
     \<longrightarrow> create self tr h d flush kwargs w = (Inl e, w1))
   \<and> (kwargs ''sa_session'' = None \<longrightarrow>
      super_create self tr flush h d
        (if d = None then kwargs(''create_dataset'' \<mapsto> PyBool True) else kwargs) w
        = (Inr hda, w1)
     \<longrightarrow> (\<exists>w'. create self tr h d flush kwargs w = (Inr hda, w')
            \<and> calls w' = calls w1
                 @ (case h of None \<Rightarrow> [] | Some x \<Rightarrow> [History_add_dataset x hda])
                 @ [Session_add hda]
                 @ (if flush then [Session_flush (map (\<lambda>r. (r, hdas w' r)) (session w'))]
                    else [])
            \<and> session w' = (if hda \<in> set (session w1) then session w1
                              else session w1 @ [hda])
            \<and> hdas w' = (case h of
                           None \<Rightarrow> hdas w1
                         | Some x \<Rightarrow> (hdas w1)
                             (hda := add_dataset (app_model self) x (hdas w1 hda)))))"
  by (auto simp add: create_def Let_def session_add_def session_flush_def
        history_add_dataset_def update_hda_def split: option.splits)

text \<open>
  Creating into history 0 with no dataset and a flush; creating with dataset 7, no
  history and no flush; and a call whose keyword arguments hold \<^verbatim>\<open>sa_session\<close>.
\<close>

theorem create_wires_hda_witness:
  "fst (create example_manager example_trans (Some 0) None True Map.empty example_world) = Inr 3
   \<and> calls (snd (create example_manager example_trans (Some 0) None True Map.empty example_world))
       = [History_add_dataset 0 3, Session_add 3,
          Session_flush [(3, example_blank\<lparr>history := Some 0, hid := Some 2\<rparr>)]]
   \<and> fst (create example_manager example_trans None (Some 7) False Map.empty example_world) = Inr 3
   \<and> calls (snd (create example_manager example_trans None (Some 7) False Map.empty example_world))
       = [Session_add 3]
   \<and> create example_manager example_trans None (Some 7) False [''sa_session'' \<mapsto> PyInt 1]
        example_world
       = (Inl (TypeError ''sa_session''), example_world)"
proof -
  let ?w1 = "\<lambda>d. example_world\<lparr>hdas := (hdas example_world)(3 := example_blank\<lparr>dataset := d\<rparr>),
                 next_hda := 4\<rparr>"
  have sc: "\<And>flush h d kw. super_create example_manager example_trans flush h d kw example_world
      = (Inr 3, ?w1 d)"
    by (simp add: example_manager_def example_world_def)
  have em: "(Map.empty :: string \<rightharpoonup> pyval) ''sa_session'' = None"
    by simp
  from create_wires_hda [where self = example_manager and tr = example_trans and flush = True
      and h = "Some 0" and d = None and kwargs = Map.empty and w = example_world
      and hda = 3 and ?w1.0 = "?w1 None"] sc em
  obtain wa where a: "create example_manager example_trans (Some 0) None True Map.empty example_world
       = (Inr 3, wa)"
     "calls wa = calls (?w1 None) @ [History_add_dataset 0 3] @ [Session_add 3]
          @ [Session_flush (map (\<lambda>r. (r, hdas wa r)) (session wa))]"
     "session wa = (if 3 \<in> set (session (?w1 None)) then session (?w1 None)
                              else session (?w1 None) @ [3])"
     "hdas wa = (hdas (?w1 None))(3 := add_dataset (app_model example_manager) 0 (hdas (?w1 None) 3))"
    by auto
  have sa: "session wa = [3]"
    using a(3) by (simp add: example_world_def)
  from create_wires_hda [where self = example_manager and tr = example_trans and flush = False
      and h = None and d = "Some 7" and kwargs = Map.empty and w = example_world
      and hda = 3 and ?w1.0 = "?w1 (Some 7)"] sc em
  obtain wb where b: "create example_manager example_trans None (Some 7) False Map.empty example_world
       = (Inr 3, wb)"
     "calls wb = calls (?w1 (Some 7)) @ [] @ [Session_add 3] @ []"
    by auto
  from create_wires_hda [where self = example_manager and tr = example_trans and flush = False
      and h = None and d = "Some 7" and kwargs = "[''sa_session'' \<mapsto> PyInt 1]"
      and w = example_world]
  have t: "create example_manager example_trans None (Some 7) False [''sa_session'' \<mapsto> PyInt 1]
        example_world
       = (Inl (TypeError ''sa_session''), example_world)"
    by simp
  from a sa b t show ?thesis
    by (simp add: example_world_def example_manager_def example_model_def example_blank_def)
qed

text \<open>
  A call with no dataset, a history, and keyword arguments that hold \<^verbatim>\<open>sa_session\<close>: the
  inherited \<^verbatim>\<open>create\<close> would have returned HDA 3, but the call of lines 80-84 raises
  before it runs, so \<^verbatim>\<open>create_dataset\<close> reaches no inherited \<^verbatim>\<open>create\<close>, no HDA is
  returned, and the store and the calls are as they were.
\<close>

theorem create_sa_session_counterexample:
  "create example_manager example_trans (Some 0) None True [''sa_session'' \<mapsto> PyInt 1]
      example_world
     = (Inl (TypeError ''sa_session''), example_world)
   \<and> calls example_world = []
   \<and> fst (super_create example_manager example_trans True (Some 0) None
            [''sa_session'' \<mapsto> PyInt 1, ''create_dataset'' \<mapsto> PyBool True] example_world)
       = Inr 3"
  by (simp add: create_def example_manager_def example_world_def)

section \<open>Copying\<close>

lemma keeps_copied_fieldsD:
  assumes "keeps_copied_fields f"
  shows "name (f x) = name x" "info (f x) = info x"
    "tool_version (f x) = tool_version x" "extension (f x) = extension x"
    "dbkey (f x) = dbkey x" "dataset (f x) = dataset x"
    "visible (f x) = visible x" "deleted (f x) = deleted x"
    "copied_from_history_dataset_association (f x) = copied_from_history_dataset_association x"
    "metadata (f x) = metadata x"
  using assms unfolding keeps_copied_fields_def by blast+

lemma keeps_peekD:
  assumes "keeps_peek f"
  shows "peek (f x) = peek x" "blurb (f x) = blurb x"
  using assms unfolding keeps_peek_def by blast+

lemma update_hda_proj:
  "hdas (update_hda r f w) = (hdas w)(r := f (hdas w r))"
  "next_hda (update_hda r f w) = next_hda w"
  "session (update_hda r f w) = session w"
  "calls (update_hda r f w) = calls w"
  by (simp_all add: update_hda_def)

lemma session_add_proj:
  "hdas (session_add r w) = hdas w"
  "next_hda (session_add r w) = next_hda w"
  "set (session (session_add r w)) = insert r (set (session w))"
  "calls (session_add r w) = calls w @ [Session_add r]"
  by (auto simp add: session_add_def)

lemma session_flush_proj:
  "hdas (session_flush w) = hdas w"
  "next_hda (session_flush w) = next_hda w"
  "session (session_flush w) = session w"
  "calls (session_flush w) = calls w @ [Session_flush (map (\<lambda>r. (r, hdas w r)) (session w))]"
  by (simp_all add: session_flush_def)

lemma history_add_dataset_proj:
  "hdas (history_add_dataset m h r w) = (hdas w)(r := add_dataset m h (hdas w r))"
  "next_hda (history_add_dataset m h r w) = next_hda w"
  "session (history_add_dataset m h r w) = session w"
  "calls (history_add_dataset m h r w) = calls w @ [History_add_dataset h r]"
  by (simp_all add: history_add_dataset_def update_hda_def)

lemma copy_new_ref: "fst (copy self tr hda h kwargs w) = next_hda w"
  by (simp add: copy_def Let_def)

lemma copy_next_hda: "next_hda (snd (copy self tr hda h kwargs w)) = Suc (next_hda w)"
  by (cases h) (simp_all add: copy_def Let_def update_hda_proj session_add_proj
        session_flush_proj history_add_dataset_proj)

lemma copy_other_objects:
  "r \<noteq> next_hda w \<Longrightarrow> hdas (snd (copy self tr hda h kwargs w)) r = hdas w r"
  by (cases h) (simp_all add: copy_def Let_def update_hda_proj session_add_proj
        session_flush_proj history_add_dataset_proj)

text \<open>
  The new object in closed form: the constructor call of lines 104-116, then
  \<^verbatim>\<open>add_dataset\<close>, the provenance field, \<^verbatim>\<open>set_size\<close>, the metadata and \<^verbatim>\<open>set_peek\<close>.
\<close>

lemma copy_new_object:
  assumes "hda \<noteq> next_hda w"
  shows "hdas (snd (copy self tr hda h kwargs w)) (next_hda w) =
     (let src = hdas w hda;
          new = (HistoryDatasetAssociation_init (app_model self))
                  \<lparr>name := name src, info := info src, blurb := blurb src, peek := peek src,
                   tool_version := tool_version src, extension := extension src,
                   dbkey := dbkey src, dataset := dataset src, visible := visible src,
                   deleted := deleted src,
                   parent_id := (case kwargs ''parent_id'' of None \<Rightarrow> PyNone | Some v \<Rightarrow> v)\<rparr>;
          added = (case h of None \<Rightarrow> new | Some x \<Rightarrow> add_dataset (app_model self) x new);
          row = set_size (app_model self)
                  (added\<lparr>copied_from_history_dataset_association := Some hda\<rparr>);
          fin = row\<lparr>metadata := metadata src\<rparr>
      in if copy_safe_peek (hda_datatype src) then fin else set_peek (app_model self) fin)"
  using assms
  by (cases h) (simp_all add: copy_def Let_def update_hda_proj session_add_proj
        session_flush_proj history_add_dataset_proj)

text \<open>
  The calls \<open>copy\<close> makes, in order, with the rows each flush writes. In the first
  flush the row of the new object is the object as \<^verbatim>\<open>set_size\<close> left it, before line 129
  assigns the metadata; in the second it is the final object.
\<close>

lemma session_add_session:
  "session (session_add r w) = (if r \<in> set (session w) then session w else session w @ [r])"
  by (simp add: session_add_def)

lemma copy_session:
  "session (snd (copy self tr hda h kwargs w))
     = (if next_hda w \<in> set (session w) then session w else session w @ [next_hda w])"
  by (cases h) (simp_all add: copy_def Let_def update_hda_proj session_add_proj
        session_add_session session_flush_proj history_add_dataset_proj)

lemma copy_calls_in_order:
  assumes "hda \<noteq> next_hda w"
  shows
    "(let src = hdas w hda;
          c = next_hda w;
          w' = snd (copy self tr hda h kwargs w);
          new = (HistoryDatasetAssociation_init (app_model self))
                  \<lparr>name := name src, info := info src, blurb := blurb src, peek := peek src,
                   tool_version := tool_version src, extension := extension src,
                   dbkey := dbkey src, dataset := dataset src, visible := visible src,
                   deleted := deleted src,
                   parent_id := (case kwargs ''parent_id'' of None \<Rightarrow> PyNone | Some v \<Rightarrow> v)\<rparr>;
          added = (case h of None \<Rightarrow> new | Some x \<Rightarrow> add_dataset (app_model self) x new);
          row = set_size (app_model self)
                  (added\<lparr>copied_from_history_dataset_association := Some hda\<rparr>)
      in calls w' = calls w
           @ (case h of None \<Rightarrow> [] | Some x \<Rightarrow> [History_add_dataset x c])
           @ [Session_add c,
              Session_flush (map (\<lambda>r. (r, if r = c then row else hdas w r)) (session w')),
              Session_flush (map (\<lambda>r. (r, hdas w' r)) (session w'))])"
proof (cases h)
  case None
  have s: "session (snd (copy self tr hda None kwargs w))
     = (if next_hda w \<in> set (session w) then session w else session w @ [next_hda w])"
    by (rule copy_session)
  show ?thesis
    using assms unfolding None Let_def s
    by (simp add: copy_def Let_def update_hda_proj session_add_proj
        session_add_session session_flush_proj history_add_dataset_proj)
next
  case (Some x)
  have s: "session (snd (copy self tr hda (Some x) kwargs w))
     = (if next_hda w \<in> set (session w) then session w else session w @ [next_hda w])"
    by (rule copy_session)
  show ?thesis
    using assms unfolding Some Let_def s
    by (simp add: copy_def Let_def update_hda_proj session_add_proj
        session_add_session session_flush_proj history_add_dataset_proj)
qed

text \<open>
  Claim C3, as the code has it. Let the source be an object of the store, and let
  \<^verbatim>\<open>add_dataset\<close>, \<^verbatim>\<open>set_size\<close> and \<^verbatim>\<open>set_peek\<close> leave alone the fields \<open>copy\<close> has
  set (\<^verbatim>\<open>set_peek\<close> may change the peek and the blurb). Then \<open>copy\<close> returns a new
  object, which is not the source; its name, info, tool_version, extension, dbkey,
  visible and deleted fields equal the source's; it has the source's dataset; its
  metadata is the source's; its \<^verbatim>\<open>copied_from_history_dataset_association\<close> is the
  source; and every object other than the new one, the source among them, is unchanged.
  Its peek and blurb equal the source's when the source's datatype has
  \<^verbatim>\<open>copy_safe_peek\<close>; otherwise line 133 sets the peek again. The metadata is copied
  after the new record is flushed: the calls \<open>copy\<close> makes are \<^verbatim>\<open>add_dataset\<close> (if a
  history is given), \<^verbatim>\<open>session.add\<close> of the new object and two flushes; the first
  flush writes the new object with the metadata the constructor gave it, not yet the
  source's, and every other object of the session as it was; the final object is that
  first row with the source's metadata stored in it (and \<^verbatim>\<open>set_peek\<close> applied when the
  datatype is not \<^verbatim>\<open>copy_safe_peek\<close>), and it is what the second flush writes.
\<close>

theorem copy_content_and_provenance:
  assumes src: "hda < next_hda w"
    and add: "\<And>x. h = Some x \<Longrightarrow>
        keeps_copied_fields (add_dataset (app_model self) x)
        \<and> keeps_peek (add_dataset (app_model self) x)"
    and size: "keeps_copied_fields (set_size (app_model self))"
         "keeps_peek (set_size (app_model self))"
    and pk: "keeps_copied_fields (set_peek (app_model self))"
    and cp: "copy self tr hda h kwargs w = (c, w')"
  shows "c = next_hda w \<and> c \<noteq> hda \<and> next_hda w' = Suc c
    \<and> name (hdas w' c) = name (hdas w hda)
    \<and> info (hdas w' c) = info (hdas w hda)
    \<and> tool_version (hdas w' c) = tool_version (hdas w hda)
    \<and> extension (hdas w' c) = extension (hdas w hda)
    \<and> dbkey (hdas w' c) = dbkey (hdas w hda)
    \<and> visible (hdas w' c) = visible (hdas w hda)
    \<and> deleted (hdas w' c) = deleted (hdas w hda)
    \<and> dataset (hdas w' c) = dataset (hdas w hda)
    \<and> (copy_safe_peek (hda_datatype (hdas w hda)) \<longrightarrow>
          peek (hdas w' c) = peek (hdas w hda) \<and> blurb (hdas w' c) = blurb (hdas w hda))
    \<and> metadata (hdas w' c) = metadata (hdas w hda)
    \<and> copied_from_history_dataset_association (hdas w' c) = Some hda
    \<and> (\<forall>r. r \<noteq> c \<longrightarrow> hdas w' r = hdas w r)
    \<and> (\<exists>row.
          metadata row = metadata (HistoryDatasetAssociation_init (app_model self))
          \<and> session w' = (if c \<in> set (session w) then session w else session w @ [c])
          \<and> calls w' = calls w
             @ (case h of None \<Rightarrow> [] | Some x \<Rightarrow> [History_add_dataset x c])
             @ [Session_add c,
                Session_flush (map (\<lambda>r. (r, if r = c then row else hdas w r)) (session w')),
                Session_flush (map (\<lambda>r. (r, hdas w' r)) (session w'))]
          \<and> hdas w' c =
              (if copy_safe_peek (hda_datatype (hdas w hda))
               then row\<lparr>metadata := metadata (hdas w hda)\<rparr>
               else set_peek (app_model self) (row\<lparr>metadata := metadata (hdas w hda)\<rparr>)))"
proof -
  have c: "c = next_hda w"
    using cp copy_new_ref [of self tr hda h kwargs w] by simp
  have w': "w' = snd (copy self tr hda h kwargs w)"
    using cp by simp
  have ne: "hda \<noteq> next_hda w"
    using src by simp
  note obj = copy_new_object [OF ne, of self tr h kwargs, folded w' c]
  note sz = keeps_copied_fieldsD [OF size(1)] keeps_peekD [OF size(2)]
  note pkD = keeps_copied_fieldsD [OF pk]
  have fresh: "c \<noteq> hda \<and> next_hda w' = Suc c"
    using ne c w' copy_next_hda [of self tr hda h kwargs w] by simp
  have others: "\<forall>r. r \<noteq> c \<longrightarrow> hdas w' r = hdas w r"
    using copy_other_objects [of _ w self tr hda h kwargs] c w' by simp
  define new where "new = (HistoryDatasetAssociation_init (app_model self))
                  \<lparr>name := name (hdas w hda), info := info (hdas w hda),
                   blurb := blurb (hdas w hda), peek := peek (hdas w hda),
                   tool_version := tool_version (hdas w hda),
                   extension := extension (hdas w hda),
                   dbkey := dbkey (hdas w hda), dataset := dataset (hdas w hda),
                   visible := visible (hdas w hda), deleted := deleted (hdas w hda),
                   parent_id := (case kwargs ''parent_id'' of None \<Rightarrow> PyNone | Some v \<Rightarrow> v)\<rparr>"
  define row where "row = set_size (app_model self)
      ((case h of None \<Rightarrow> new | Some x \<Rightarrow> add_dataset (app_model self) x new)
         \<lparr>copied_from_history_dataset_association := Some hda\<rparr>)"
  have sess: "session w' = (if c \<in> set (session w) then session w else session w @ [c])"
    unfolding w' c by (rule copy_session)
  have cl: "calls w' = calls w
             @ (case h of None \<Rightarrow> [] | Some x \<Rightarrow> [History_add_dataset x c])
             @ [Session_add c,
                Session_flush (map (\<lambda>r. (r, if r = c then row else hdas w r)) (session w')),
                Session_flush (map (\<lambda>r. (r, hdas w' r)) (session w'))]"
    using copy_calls_in_order [OF ne, of self tr h kwargs]
    unfolding Let_def w' c row_def new_def .
  have fin: "hdas w' c =
              (if copy_safe_peek (hda_datatype (hdas w hda))
               then row\<lparr>metadata := metadata (hdas w hda)\<rparr>
               else set_peek (app_model self) (row\<lparr>metadata := metadata (hdas w hda)\<rparr>))"
    using obj unfolding Let_def row_def new_def .
  have md: "metadata row = metadata (HistoryDatasetAssociation_init (app_model self))"
  proof (cases h)
    case None
    then show ?thesis
      by (simp add: row_def new_def sz)
  next
    case (Some x)
    note ad = keeps_copied_fieldsD [OF conjunct1 [OF add [OF Some]]]
    from Some show ?thesis
      by (simp add: row_def new_def sz ad)
  qed
  from md sess cl fin have order: "\<exists>row.
          metadata row = metadata (HistoryDatasetAssociation_init (app_model self))
          \<and> session w' = (if c \<in> set (session w) then session w else session w @ [c])
          \<and> calls w' = calls w
             @ (case h of None \<Rightarrow> [] | Some x \<Rightarrow> [History_add_dataset x c])
             @ [Session_add c,
                Session_flush (map (\<lambda>r. (r, if r = c then row else hdas w r)) (session w')),
                Session_flush (map (\<lambda>r. (r, hdas w' r)) (session w'))]
          \<and> hdas w' c =
              (if copy_safe_peek (hda_datatype (hdas w hda))
               then row\<lparr>metadata := metadata (hdas w hda)\<rparr>
               else set_peek (app_model self) (row\<lparr>metadata := metadata (hdas w hda)\<rparr>))"
    by blast
  have fields: "name (hdas w' c) = name (hdas w hda)
    \<and> info (hdas w' c) = info (hdas w hda)
    \<and> tool_version (hdas w' c) = tool_version (hdas w hda)
    \<and> extension (hdas w' c) = extension (hdas w hda)
    \<and> dbkey (hdas w' c) = dbkey (hdas w hda)
    \<and> visible (hdas w' c) = visible (hdas w hda)
    \<and> deleted (hdas w' c) = deleted (hdas w hda)
    \<and> dataset (hdas w' c) = dataset (hdas w hda)
    \<and> metadata (hdas w' c) = metadata (hdas w hda)
    \<and> copied_from_history_dataset_association (hdas w' c) = Some hda"
  proof (cases h)
    case None
    then show ?thesis
      unfolding obj by (simp add: Let_def sz pkD)
  next
    case (Some x)
    note ad = keeps_copied_fieldsD [OF conjunct1 [OF add [OF Some]]]
    from Some show ?thesis
      unfolding obj by (simp add: Let_def sz pkD ad)
  qed
  have peeks: "copy_safe_peek (hda_datatype (hdas w hda)) \<longrightarrow>
          peek (hdas w' c) = peek (hdas w hda) \<and> blurb (hdas w' c) = blurb (hdas w hda)"
  proof (cases h)
    case None
    then show ?thesis
      unfolding obj by (simp add: Let_def sz)
  next
    case (Some x)
    note ad = keeps_peekD [OF conjunct2 [OF add [OF Some]]]
    from Some show ?thesis
      unfolding obj by (simp add: Let_def sz ad)
  qed
  from c fresh fields peeks others order show ?thesis
    by simp
qed

text \<open>
  Copying HDA 1, whose datatype has \<^verbatim>\<open>copy_safe_peek\<close>, into history 0: the first flush
  writes the new row with no metadata, the second with the metadata of HDA 1.
\<close>

theorem copy_content_and_provenance_witness:
  "fst (copy example_manager example_trans 1 (Some 0) Map.empty example_world) = 3
   \<and> name (hdas (snd (copy example_manager example_trans 1 (Some 0) Map.empty example_world)) 3)
       = ''reads''
   \<and> peek (hdas (snd (copy example_manager example_trans 1 (Some 0) Map.empty example_world)) 3)
       = ''ACGT''
   \<and> metadata (hdas (snd (copy example_manager example_trans 1 (Some 0) Map.empty example_world)) 3)
       = [(''data_lines'', PyInt 4)]
   \<and> copied_from_history_dataset_association
        (hdas (snd (copy example_manager example_trans 1 (Some 0) Map.empty example_world)) 3)
       = Some 1
   \<and> hdas (snd (copy example_manager example_trans 1 (Some 0) Map.empty example_world)) 1
       = hdas example_world 1
   \<and> (\<exists>row. metadata row = []
         \<and> calls (snd (copy example_manager example_trans 1 (Some 0) Map.empty example_world))
            = [History_add_dataset 0 3, Session_add 3, Session_flush [(3, row)],
               Session_flush
                 [(3, hdas (snd (copy example_manager example_trans 1 (Some 0) Map.empty
                                   example_world)) 3)]])"
proof -
  let ?r = "copy example_manager example_trans 1 (Some 0) Map.empty example_world"
  have src: "1 < next_hda example_world"
    by (simp add: example_world_def)
  have ad: "\<And>x. Some (0::nat) = Some x \<Longrightarrow>
        keeps_copied_fields (add_dataset (app_model example_manager) x)
        \<and> keeps_peek (add_dataset (app_model example_manager) x)"
    by (simp add: keeps_copied_fields_def keeps_peek_def example_manager_def example_model_def)
  have sz: "keeps_copied_fields (set_size (app_model example_manager))"
    "keeps_peek (set_size (app_model example_manager))"
    by (simp_all add: keeps_copied_fields_def keeps_peek_def example_manager_def
        example_model_def)
  have pk: "keeps_copied_fields (set_peek (app_model example_manager))"
    by (simp add: keeps_copied_fields_def example_manager_def example_model_def)
  have cp: "?r = (fst ?r, snd ?r)"
    by simp
  have safe: "copy_safe_peek (hda_datatype (hdas example_world 1))"
    by (simp add: example_world_def example_hda_def)
  have vals: "next_hda example_world = 3" "name (hdas example_world 1) = ''reads''"
    "peek (hdas example_world 1) = ''ACGT''"
    "metadata (hdas example_world 1) = [(''data_lines'', PyInt 4)]"
    by (simp_all add: example_world_def example_hda_def)
  have ini: "metadata (HistoryDatasetAssociation_init (app_model example_manager)) = []"
    "session example_world = []" "calls example_world = []"
    by (simp_all add: example_manager_def example_model_def example_blank_def example_world_def)
  note cc = copy_content_and_provenance [OF src ad sz pk cp]
  from cc have c: "fst ?r = next_hda example_world"
    by (rule conjunct1)
  from cc safe have fields: "name (hdas (snd ?r) (fst ?r)) = name (hdas example_world 1)"
    "peek (hdas (snd ?r) (fst ?r)) = peek (hdas example_world 1)"
    "metadata (hdas (snd ?r) (fst ?r)) = metadata (hdas example_world 1)"
    "copied_from_history_dataset_association (hdas (snd ?r) (fst ?r)) = Some 1"
    by blast+
  from cc have "\<forall>r. r \<noteq> fst ?r \<longrightarrow> hdas (snd ?r) r = hdas example_world r"
    by blast
  with c vals(1) have other: "hdas (snd ?r) 1 = hdas example_world 1"
    by simp
  from cc obtain row where row:
    "metadata row = metadata (HistoryDatasetAssociation_init (app_model example_manager))"
    "session (snd ?r) = (if fst ?r \<in> set (session example_world) then session example_world
                         else session example_world @ [fst ?r])"
    "calls (snd ?r) = calls example_world
             @ (case Some (0::nat) of None \<Rightarrow> [] | Some x \<Rightarrow> [History_add_dataset x (fst ?r)])
             @ [Session_add (fst ?r),
                Session_flush (map (\<lambda>r. (r, if r = fst ?r then row else hdas example_world r))
                                 (session (snd ?r))),
                Session_flush (map (\<lambda>r. (r, hdas (snd ?r) r)) (session (snd ?r)))]"
    by blast
  from row c vals(1) ini have order: "\<exists>row. metadata row = []
         \<and> calls (snd ?r)
            = [History_add_dataset 0 3, Session_add 3, Session_flush [(3, row)],
               Session_flush [(3, hdas (snd ?r) 3)]]"
    by simp
  from c fields other vals order show ?thesis
    by simp
qed

text \<open>
  Copying HDA 0, whose datatype does not have \<^verbatim>\<open>copy_safe_peek\<close>: line 133 calls
  \<^verbatim>\<open>set_peek\<close> on the copy, and the peek of the copy is the regenerated one, not the
  source's.
\<close>

theorem copy_peek_counterexample:
  "\<not> copy_safe_peek (hda_datatype (hdas example_world 0))
   \<and> fst (copy example_manager example_trans 0 None Map.empty example_world) = 3
   \<and> peek (hdas example_world 0) = ''ACGT''
   \<and> peek (hdas (snd (copy example_manager example_trans 0 None Map.empty example_world)) 3)
       = ''regenerated''"
proof -
  have ne: "(0::nat) \<noteq> next_hda example_world"
    by (simp add: example_world_def)
  have n: "next_hda example_world = 3"
    by (simp add: example_world_def)
  have src: "hdas example_world 0 = example_hda"
    by (simp add: example_world_def)
  have "peek (hdas (snd (copy example_manager example_trans 0 None Map.empty example_world))
          (next_hda example_world)) = ''regenerated''"
    unfolding copy_new_object [OF ne] src
    by (simp add: Let_def example_hda_def example_manager_def example_model_def)
  then show ?thesis
    using n copy_new_ref [of example_manager example_trans 0 None Map.empty example_world]
    by (simp add: src example_hda_def)
qed

section \<open>Serializing and deserializing\<close>

text \<open>
  Claim C7. Whatever the inherited tables hold, and for every transaction, HDA and key
  argument, the serializers of these six keys return the constants of lines 274-276 and
  306-308.
\<close>

theorem constant_serializers:
  "map_option (\<lambda>f. f t w i k) (add_serializers self s0 ''model_class'')
      = Some (Inr (PyStr ''HistoryDatasetAssociation''))
   \<and> map_option (\<lambda>f. f t w i k) (add_serializers self s0 ''history_content_type'')
      = Some (Inr (PyStr ''dataset''))
   \<and> map_option (\<lambda>f. f t w i k) (add_serializers self s0 ''hda_ldda'')
      = Some (Inr (PyStr ''hda''))
   \<and> map_option (\<lambda>f. f t w i k) (add_serializers self s0 ''accessible'')
      = Some (Inr (PyBool True))
   \<and> map_option (\<lambda>f. f t w i k) (add_serializers self s0 ''api_type'')
      = Some (Inr (PyStr ''file''))
   \<and> map_option (\<lambda>f. f t w i k) (add_serializers self s0 ''type'')
      = Some (Inr (PyStr ''file''))"
  by (simp add: add_serializers_def map_add_def)









end
